theory Spec2Isabelle
  imports Main
begin

section \<open>Data model\<close>

text \<open>
  The settings record is a JavaScript object. The host reads it from and writes it to a
  JSON file, so a field holds a JSON scalar; an object is a finite map from property
  names to values. The TypeScript interface \<open>TemplatePluginSettings\<close> names two
  properties, \<open>enableFeature\<close> (boolean) and \<open>exampleSetting\<close> (string); at run time
  nothing enforces it, so the model keeps the object untyped. The values covered are
  the JSON scalars, numbers being integers.
  A string is a character list and \<open>.length\<close> is its length.
\<close>

datatype jsval = JBool bool | JStr string | JNum int | JNull

type_synonym obj = "string \<rightharpoonup> jsval"

text \<open>What a \<open>catch\<close> clause can receive: an \<open>Error\<close> object with its message and
  optional stack, or any other thrown value, kept as the text \<open>String(e)\<close> gives.\<close>

datatype thrown = ErrorObj string "string option" | NonError string

text \<open>The source tests \<open>e instanceof Error ? e.message : String(e)\<close> and
  \<open>e instanceof Error ? e.stack : undefined\<close>.\<close>

fun thrown_text :: "thrown \<Rightarrow> string" where
  "thrown_text (ErrorObj m st) = m"
| "thrown_text (NonError t) = t"

fun thrown_stack :: "thrown \<Rightarrow> string option" where
  "thrown_stack (ErrorObj m st) = st"
| "thrown_stack (NonError t) = None"

subsection \<open>The log\<close>

text \<open>
  Modelled from the spec: the logging utility (\<open>debug\<close>, \<open>info\<close>, \<open>warn\<close>, \<open>error\<close> of
  \<open>@/utils\<close>) is an external collaborator, a leveled-logging layer. A call appends one
  entry holding its arguments: the severity, the component passed as \<open>this\<close>, the
  message and the data object. A data value is a JavaScript value, \<open>undefined\<close>, a
  number, or the text of \<open>(a / b).toFixed(d)\<close>, which is kept as the triple it is
  computed from.
\<close>

datatype level = Debug | Info | Warn | Error

datatype component =
  TemplatePlugin | SettingsManager | TemplatePluginSettingTab | VaultEventHandler

datatype logval = LUndefined | LJs jsval | LNat nat | LToFixed nat nat nat

record log_entry =
  lvl :: level
  origin :: component
  msg :: string
  payload :: "(string \<times> logval) list"

subsection \<open>The plugin state\<close>

text \<open>
  \<open>TemplatePlugin.settings\<close> and the private \<open>SettingsManager.settings\<close> are references
  to objects, and \<open>onload\<close> hands the same object to both; the store maps an address to
  the object it holds. \<open>saved\<close> lists the argument of every \<open>saveData\<close> call made to the
  host, oldest first: the host storage itself is outside the repository.
\<close>

record plugin_state =
  heap :: "nat \<Rightarrow> obj"
  next_addr :: nat
  plugin_settings :: nat
  manager_settings :: nat
  saved :: "obj list"
  logged :: "log_entry list"

definition emit ::
  "level \<Rightarrow> component \<Rightarrow> string \<Rightarrow> (string \<times> logval) list \<Rightarrow> plugin_state \<Rightarrow> plugin_state" where
  "emit l c m d s = s\<lparr>logged := logged s @ [\<lparr>lvl = l, origin = c, msg = m, payload = d\<rparr>]\<rparr>"

abbreviation debug :: "component \<Rightarrow> string \<Rightarrow> (string \<times> logval) list \<Rightarrow> plugin_state \<Rightarrow> plugin_state" where
  "debug \<equiv> emit Debug"

abbreviation info :: "component \<Rightarrow> string \<Rightarrow> (string \<times> logval) list \<Rightarrow> plugin_state \<Rightarrow> plugin_state" where
  "info \<equiv> emit Info"

abbreviation warn :: "component \<Rightarrow> string \<Rightarrow> (string \<times> logval) list \<Rightarrow> plugin_state \<Rightarrow> plugin_state" where
  "warn \<equiv> emit Warn"

abbreviation error :: "component \<Rightarrow> string \<Rightarrow> (string \<times> logval) list \<Rightarrow> plugin_state \<Rightarrow> plugin_state" where
  "error \<equiv> emit Error"

text \<open>The entries a step appended: those of the later log beyond the earlier one.\<close>

definition emitted :: "plugin_state \<Rightarrow> plugin_state \<Rightarrow> log_entry list" where
  "emitted s s' = drop (length (logged s)) (logged s')"

text \<open>Reading a property: \<open>undefined\<close> when the object has none of that name.\<close>

definition read_prop :: "obj \<Rightarrow> string \<Rightarrow> logval" where
  "read_prop ob k = (case ob k of None \<Rightarrow> LUndefined | Some v \<Rightarrow> LJs v)"

text \<open>The assignment \<open>ref[key] = value\<close> on the object at an address. The key of
  \<open>updateSetting\<close> is typed \<open>keyof TemplatePluginSettings\<close>, so it names a declared
  field and the assignment sets an own property.\<close>

definition set_field :: "nat \<Rightarrow> string \<Rightarrow> jsval \<Rightarrow> plugin_state \<Rightarrow> plugin_state" where
  "set_field a k v s = s\<lparr>heap := (heap s)(a := (heap s a)(k \<mapsto> v))\<rparr>"

text \<open>
  Modelled from the spec: \<open>Plugin.saveData\<close> belongs to the host (opaque save of one
  JSON-like blob). The call receives the object as it is at that moment; whether it
  returns or raises is the host's answer, given as \<open>None\<close> (returns) or \<open>Some e\<close>
  (raises \<open>e\<close>).
\<close>

definition saveData :: "thrown option \<Rightarrow> obj \<Rightarrow> plugin_state \<Rightarrow> (thrown + unit) \<times> plugin_state" where
  "saveData host d s =
     (let s' = s\<lparr>saved := saved s @ [d]\<rparr>
      in case host of None \<Rightarrow> (Inr (), s') | Some e \<Rightarrow> (Inl e, s'))"

section \<open>Settings manager\<close>

text \<open>\<open>getSettings\<close> logs one line and returns the reference it holds.\<close>

definition getSettings :: "plugin_state \<Rightarrow> nat \<times> plugin_state" where
  "getSettings s =
     (manager_settings s,
      debug SettingsManager ''Retrieving current settings configuration'' [] s)"

text \<open>The value shown in the success line: a string longer than 50 is cut to its first
  50 characters followed by three dots.\<close>

fun shown_value :: "jsval \<Rightarrow> jsval" where
  "shown_value (JStr t) = (if length t > 50 then JStr (take 50 t @ ''...'') else JStr t)"
| "shown_value v = v"

text \<open>The soft validation \<open>key === 'exampleSetting' && typeof value === 'string' &&
  value.length > 100\<close>, and the \<open>value.length\<close> it reports.\<close>

fun too_long :: "string \<Rightarrow> jsval \<Rightarrow> bool" where
  "too_long k (JStr t) = (k = ''exampleSetting'' \<and> length t > 100)"
| "too_long k v = False"

fun value_length :: "jsval \<Rightarrow> nat" where
  "value_length (JStr t) = length t"
| "value_length v = 0"

definition updateSetting ::
  "thrown option \<Rightarrow> string \<Rightarrow> jsval \<Rightarrow> plugin_state \<Rightarrow> (thrown + unit) \<times> plugin_state" where
  "updateSetting host k v s0 =
     (let s1 = debug SettingsManager (''Updating setting: '' @ k)
                 [(''oldValue'', read_prop (heap s0 (manager_settings s0)) k), (''newValue'', LJs v)] s0;
          s2 = (if too_long k v
                then warn SettingsManager ''Setting value exceeds recommended length''
                       [(''key'', LJs (JStr k)), (''length'', LNat (value_length v)),
                        (''maxRecommended'', LNat 100)] s1
                else s1);
          s3 = set_field (manager_settings s2) k v s2;
          s4 = set_field (plugin_settings s3) k v s3;
          s5 = debug SettingsManager ''Persisting updated settings to storage'' [] s4
      in case saveData host (heap s5 (plugin_settings s5)) s5 of
           (Inr u, s6) \<Rightarrow>
             (Inr (),
              info SettingsManager ''Setting successfully updated''
                [(''key'', LJs (JStr k)), (''newValue'', LJs (shown_value v))]
                (debug SettingsManager ''Setting update completed successfully'' [] s6))
         | (Inl e, s6) \<Rightarrow>
             (Inl e,
              error SettingsManager ''Failed to update plugin setting''
                [(''key'', LJs (JStr k)), (''error'', LJs (JStr (thrown_text e))),
                 (''attemptedValue'', LJs v)] s6))"

section \<open>Plugin entry\<close>

definition DEFAULT_SETTINGS :: obj where
  "DEFAULT_SETTINGS =
     [''enableFeature'' \<mapsto> JBool True, ''exampleSetting'' \<mapsto> JStr ''default value'']"

text \<open>
  \<open>Object.assign(target, ...sources)\<close> assigns the own properties of each source to the
  target in order, a later source overriding an earlier one; a \<open>null\<close> or \<open>undefined\<close>
  source is skipped. Each property is assigned as \<open>target[key] = value\<close> would, which
  makes the name \<open>__proto__\<close> special: while the target has no own property of that name
  and still inherits the accessor of \<open>Object.prototype\<close>, the assignment goes to that
  setter and creates no property. The setter ignores a scalar, and for \<open>null\<close> it takes
  the prototype away, after which \<open>__proto__\<close> is a name like any other. An object here
  is its own properties, so the target is paired with a flag saying whether it still
  inherits the accessor, as the fresh \<open>{}\<close> passed by \<open>onload\<close> does.
\<close>

definition assign_source :: "bool \<times> obj \<Rightarrow> obj \<Rightarrow> bool \<times> obj" where
  "assign_source t src =
     (case t of (inherits, target) \<Rightarrow>
        (case src ''__proto__'' of
           None \<Rightarrow> (inherits, target ++ src)
         | Some v \<Rightarrow>
             if target ''__proto__'' = None \<and> inherits
             then (v \<noteq> JNull, (target ++ src)(''__proto__'' := None))
             else (inherits, target ++ src)))"

fun assign_sources :: "bool \<times> obj \<Rightarrow> obj option list \<Rightarrow> bool \<times> obj" where
  "assign_sources t [] = t"
| "assign_sources t (None # rest) = assign_sources t rest"
| "assign_sources t (Some src # rest) = assign_sources (assign_source t src) rest"

definition Object_assign :: "obj \<Rightarrow> obj option list \<Rightarrow> obj" where
  "Object_assign target sources = snd (assign_sources (True, target) sources)"

definition SettingsManager_initialize :: "plugin_state \<Rightarrow> plugin_state" where
  "SettingsManager_initialize s =
     debug SettingsManager ''Settings manager fully initialized and ready for user interactions'' []
       (debug SettingsManager ''Registering settings tab with Obsidian app'' []
         (debug SettingsManager ''Initializing settings manager - preparing UI components'' [] s))"

definition VaultEventHandler_initialize :: "plugin_state \<Rightarrow> plugin_state" where
  "VaultEventHandler_initialize s =
     debug VaultEventHandler ''Vault event handler fully initialized - all file system events monitored'' []
       (debug VaultEventHandler ''Registering file rename event handler'' []
         (debug VaultEventHandler ''Registering file deletion event handler'' []
           (debug VaultEventHandler ''Registering file creation event handler'' []
             (debug VaultEventHandler ''Setting up vault event listeners - monitoring file system changes'' [] s))))"

text \<open>
  \<open>onload\<close> receives the manifest version and the answer of the host's \<open>loadData\<close>: it
  raises (\<open>Inl e\<close>), or returns the persisted object or \<open>null\<close> (\<open>Inr\<close>). The settings
  object is allocated at a fresh address, which the plugin and the settings manager
  both hold. The host's registration calls (\<open>addSettingTab\<close>, \<open>registerEvent\<close>,
  \<open>addRibbonIcon\<close>, \<open>addCommand\<close>) are taken to return normally.
\<close>

definition onload ::
  "string \<Rightarrow> thrown + obj option \<Rightarrow> plugin_state \<Rightarrow> (thrown + unit) \<times> plugin_state" where
  "onload version loadData s0 =
     (let s1 = debug TemplatePlugin ''Initializing logger system'' [] s0;
          s2 = info TemplatePlugin ''Template Plugin starting initialization''
                 [(''version'', LJs (JStr version))] s1;
          s3 = debug TemplatePlugin ''Loading plugin settings from storage'' [] s2
      in case loadData of
           Inl e \<Rightarrow>
             (Inl e,
              error TemplatePlugin ''Failed to initialize Template Plugin''
                [(''error'', LJs (JStr (thrown_text e))),
                 (''stack'', case thrown_stack e of None \<Rightarrow> LUndefined | Some st \<Rightarrow> LJs (JStr st))] s3)
         | Inr data \<Rightarrow>
             (let a = next_addr s3;
                  s4 = s3\<lparr>heap := (heap s3)(a := Object_assign Map.empty [Some DEFAULT_SETTINGS, data]),
                          next_addr := Suc a, plugin_settings := a\<rparr>;
                  s5 = debug TemplatePlugin ''Creating settings manager and vault event handler instances'' [] s4;
                  s6 = s5\<lparr>manager_settings := plugin_settings s5\<rparr>;
                  s7 = debug TemplatePlugin ''Registering components with logger for enhanced debugging'' [] s6;
                  s8 = debug TemplatePlugin ''Initializing settings manager and event handler'' [] s7;
                  s9 = VaultEventHandler_initialize (SettingsManager_initialize s8);
                  s10 = debug TemplatePlugin ''Adding ribbon icon for quick plugin access'' [] s9;
                  s11 = debug TemplatePlugin ''Registering template plugin command'' [] s10
              in (Inr (),
                  info TemplatePlugin ''Template Plugin successfully loaded and ready''
                    [(''settingsLoaded'', LJs (JBool True)),
                     (''componentsInitialized'', LJs (JBool True))] s11)))"

text \<open>JavaScript truthiness of a property read: \<open>undefined\<close>, \<open>null\<close>, \<open>false\<close>, \<open>0\<close> and
  the empty string are falsy.\<close>

fun truthy :: "jsval option \<Rightarrow> bool" where
  "truthy None = False"
| "truthy (Some (JBool b)) = b"
| "truthy (Some (JStr t)) = (t \<noteq> [])"
| "truthy (Some (JNum n)) = (n \<noteq> 0)"
| "truthy (Some JNull) = False"

section \<open>Vault event handler\<close>

text \<open>
  The host passes a \<open>TAbstractFile\<close>: a \<open>TFile\<close> with its path, name, extension,
  \<open>stat.size\<close> and the path of its parent folder when it has one, or something that is
  not a \<open>TFile\<close> (a folder, given by its path).
\<close>

record TFile =
  path :: string
  name :: string
  extension :: string
  stat_size :: nat
  parent_path :: "string option"

datatype TAbstractFile = AFile TFile | AFolder string

text \<open>The string methods the handlers call. \<open>toLowerCase\<close> is modelled on the
  letters A to Z.\<close>

fun startsWith :: "string \<Rightarrow> string \<Rightarrow> bool" where
  "startsWith s [] = True"
| "startsWith [] (p # ps) = False"
| "startsWith (c # cs) (p # ps) = (c = p \<and> startsWith cs ps)"

fun includes_str :: "string \<Rightarrow> string \<Rightarrow> bool" where
  "includes_str [] sub = (sub = [])"
| "includes_str (c # cs) sub = (startsWith (c # cs) sub \<or> includes_str cs sub)"

definition lower_char :: "char \<Rightarrow> char" where
  "lower_char c =
     (let n = (of_char c :: nat) in if 65 \<le> n \<and> n \<le> 90 then char_of (n + 32) else c)"

definition toLowerCase :: "string \<Rightarrow> string" where
  "toLowerCase s = map lower_char s"

text \<open>\<open>s.split(sep)\<close> for a one-character separator: never empty, the pieces between
  the separators in order. \<open>pop()\<close> takes the last piece, and \<open>|| ''\<close> turns a missing
  one into the empty string.\<close>

fun split_str :: "string \<Rightarrow> char \<Rightarrow> string list" where
  "split_str [] sep = [[]]"
| "split_str (c # cs) sep =
     (if c = sep then [] # split_str cs sep
      else (case split_str cs sep of [] \<Rightarrow> [[c]] | w # ws \<Rightarrow> (c # w) # ws))"

definition pop_or_empty :: "string list \<Rightarrow> string" where
  "pop_or_empty ws = (case rev ws of [] \<Rightarrow> [] | w # rest \<Rightarrow> w)"

text \<open>\<open>file.parent?.path || 'root'\<close>.\<close>

definition parentFolder :: "TFile \<Rightarrow> string" where
  "parentFolder f =
     (case parent_path f of None \<Rightarrow> ''root'' | Some p \<Rightarrow> if p = [] then ''root'' else p)"

abbreviation str :: "string \<Rightarrow> logval" where
  "str t \<equiv> LJs (JStr t)"

fun onFileCreate :: "TAbstractFile \<Rightarrow> plugin_state \<Rightarrow> plugin_state" where
  "onFileCreate (AFolder p) s = s"
| "onFileCreate (AFile f) s =
     (let s1 = debug VaultEventHandler ''Processing file creation event''
                 [(''path'', str (path f)), (''extension'', str (extension f))] s
      in if truthy (heap s1 (plugin_settings s1) ''enableFeature'')
         then
           (let s2 = debug VaultEventHandler ''Feature enabled - applying creation logic to new file'' [] s1;
                s3 = (if extension f = ''md''
                      then info VaultEventHandler ''New markdown file created''
                             [(''path'', str (path f)), (''parentFolder'', str (parentFolder f))] s2
                      else s2);
                s4 = (if includes_str (name f) '' ''
                      then warn VaultEventHandler
                             ''File created with spaces in name - may cause linking issues''
                             [(''fileName'', str (name f)), (''path'', str (path f))] s3
                      else s3)
            in if includes_str (path f) ''/.temp/'' \<or> startsWith (name f) ''temp_''
               then error VaultEventHandler
                      ''File created in restricted location or with temp naming pattern''
                      [(''path'', str (path f)),
                       (''pattern'', str ''temp files not allowed in this vault configuration'')] s4
               else s4)
         else debug VaultEventHandler ''Feature disabled - skipping creation logic'' [] s1)"

fun onFileDelete :: "TAbstractFile \<Rightarrow> plugin_state \<Rightarrow> plugin_state" where
  "onFileDelete (AFolder p) s = s"
| "onFileDelete (AFile f) s =
     (let s1 = debug VaultEventHandler ''Processing file deletion event''
                 [(''path'', str (path f))] s;
          s2 = (if extension f = ''md'' \<and> stat_size f > 10000
                then info VaultEventHandler ''Large markdown file deleted''
                       [(''path'', str (path f)), (''sizeBytes'', LNat (stat_size f)),
                        (''sizeMB'', LToFixed (stat_size f) (1024 * 1024) 2)] s1
                else s1)
      in if startsWith (path f) ''Important/'' \<or> includes_str (toLowerCase (name f)) ''backup''
         then warn VaultEventHandler
                ''File deleted from important location or appears to be backup''
                [(''path'', str (path f)),
                 (''reason'', str ''deletion from protected area detected'')] s2
         else s2)"

fun onFileRename :: "TAbstractFile \<Rightarrow> string \<Rightarrow> plugin_state \<Rightarrow> plugin_state" where
  "onFileRename (AFolder p) oldPath s = s"
| "onFileRename (AFile f) oldPath s =
     (let s1 = debug VaultEventHandler ''Processing file rename event''
                 [(''oldPath'', str oldPath), (''newPath'', str (path f))] s;
          oldName = pop_or_empty (split_str oldPath (CHR ''/''));
          newName = name f
      in if oldName \<noteq> newName
         then
           (let s2 = info VaultEventHandler ''File renamed with name change''
                       [(''oldName'', str oldName), (''newName'', str newName),
                        (''oldPath'', str oldPath), (''newPath'', str (path f))] s1
            in if includes_str oldName '' '' \<and> \<not> includes_str newName '' ''
               then warn VaultEventHandler
                      ''File renamed from spaced to non-spaced name - check for broken links''
                      [(''oldName'', str oldName), (''newName'', str newName),
                       (''suggestion'', str ''run link update to fix references'')] s2
               else s2)
         else s1)"

section \<open>Runs of the loaded plugin\<close>

text \<open>
  Once loaded, the plugin is driven by the host, one callback at a time: a settings
  control calls \<open>updateSetting\<close> (an error it raises goes back to the host, the state
  stays as the call left it), a component reads \<open>getSettings\<close>, the vault fires a file
  event. A call runs to its end before the next callback starts: the \<open>await\<close> on the
  host's save is not modelled as a point where another callback comes in.
\<close>

datatype action =
  Update "thrown option" string jsval
| Get
| Create TAbstractFile
| Delete TAbstractFile
| Rename TAbstractFile string

fun step :: "action \<Rightarrow> plugin_state \<Rightarrow> plugin_state" where
  "step (Update host k v) s = snd (updateSetting host k v s)"
| "step Get s = snd (getSettings s)"
| "step (Create af) s = onFileCreate af s"
| "step (Delete af) s = onFileDelete af s"
| "step (Rename af oldPath) s = onFileRename af oldPath s"

fun run :: "action list \<Rightarrow> plugin_state \<Rightarrow> plugin_state" where
  "run [] s = s"
| "run (a # as) s = run as (step a s)"

text \<open>The record a reference points to, and the check that it has both fields.\<close>

definition settings_record :: "plugin_state \<Rightarrow> obj" where
  "settings_record s = heap s (plugin_settings s)"

definition manager_record :: "plugin_state \<Rightarrow> obj" where
  "manager_record s = heap s (manager_settings s)"

definition has_both_fields :: "obj \<Rightarrow> bool" where
  "has_both_fields ob = (ob ''enableFeature'' \<noteq> None \<and> ob ''exampleSetting'' \<noteq> None)"

text \<open>The severity and message of each entry of a log.\<close>

definition lines :: "log_entry list \<Rightarrow> (level \<times> string) list" where
  "lines es = map (\<lambda>e. (lvl e, msg e)) es"

text \<open>The plugin before the host calls \<open>onload\<close>: nothing allocated, nothing saved,
  nothing logged.\<close>

definition fresh_state :: plugin_state where
  "fresh_state = \<lparr>heap = (\<lambda>a. Map.empty), next_addr = 0, plugin_settings = 0,
     manager_settings = 0, saved = [], logged = []\<rparr>"

text \<open>Sample data: the plugin loaded with nothing persisted, loaded with the flag
  persisted as off, and a markdown file.\<close>

definition loaded_defaults :: plugin_state where
  "loaded_defaults = snd (onload ''1.0.0'' (Inr None) fresh_state)"

definition loaded_disabled :: plugin_state where
  "loaded_disabled =
     snd (onload ''1.0.0'' (Inr (Some [''enableFeature'' \<mapsto> JBool False])) fresh_state)"

definition sample_note :: TFile where
  "sample_note = \<lparr>path = ''Important/old backup.md'', name = ''old backup.md'',
     extension = ''md'', stat_size = 20000, parent_path = Some ''Important''\<rparr>"

section \<open>Properties of the settings manager\<close>

lemma heap_emit: "heap (emit l c m d s) = heap s"
  by (simp add: emit_def)

lemma plugin_settings_emit: "plugin_settings (emit l c m d s) = plugin_settings s"
  by (simp add: emit_def)

lemma manager_settings_emit: "manager_settings (emit l c m d s) = manager_settings s"
  by (simp add: emit_def)

lemma saved_emit: "saved (emit l c m d s) = saved s"
  by (simp add: emit_def)

lemma next_addr_emit: "next_addr (emit l c m d s) = next_addr s"
  by (simp add: emit_def)

lemma logged_emit:
  "logged (emit l c m d s) = logged s @ [\<lparr>lvl = l, origin = c, msg = m, payload = d\<rparr>]"
  by (simp add: emit_def)

lemmas emit_simps =
  heap_emit plugin_settings_emit manager_settings_emit saved_emit next_addr_emit logged_emit

lemma heap_set_field: "heap (set_field a k v s) = (heap s)(a := (heap s a)(k \<mapsto> v))"
  by (simp add: set_field_def)

lemma refs_set_field:
  "plugin_settings (set_field a k v s) = plugin_settings s"
  "manager_settings (set_field a k v s) = manager_settings s"
  "next_addr (set_field a k v s) = next_addr s"
  "saved (set_field a k v s) = saved s"
  "logged (set_field a k v s) = logged s"
  by (simp_all add: set_field_def)

lemma updateSetting_result:
  "fst (updateSetting host k v s) = (case host of None \<Rightarrow> Inr () | Some e \<Rightarrow> Inl e)"
  by (simp add: updateSetting_def saveData_def Let_def split: option.splits)

lemma updateSetting_refs:
  "plugin_settings (snd (updateSetting host k v s)) = plugin_settings s"
  "manager_settings (snd (updateSetting host k v s)) = manager_settings s"
  "next_addr (snd (updateSetting host k v s)) = next_addr s"
  by (simp_all add: updateSetting_def saveData_def Let_def emit_simps refs_set_field split: option.splits)

lemma updateSetting_heap:
  "heap (snd (updateSetting host k v s)) =
     (let h = (heap s)(manager_settings s := (heap s (manager_settings s))(k \<mapsto> v))
      in h(plugin_settings s := (h (plugin_settings s))(k \<mapsto> v)))"
  by (simp add: updateSetting_def saveData_def Let_def emit_simps refs_set_field heap_set_field
      split: option.splits)

lemma updateSetting_saved:
  "saved (snd (updateSetting host k v s)) =
     saved s @ [heap (snd (updateSetting host k v s)) (plugin_settings s)]"
  by (simp add: updateSetting_def saveData_def Let_def emit_simps refs_set_field heap_set_field
      split: option.splits)

lemma updateSetting_logged:
  "logged (snd (updateSetting host k v s)) =
     logged s
     @ [\<lparr>lvl = Debug, origin = SettingsManager, msg = ''Updating setting: '' @ k,
          payload = [(''oldValue'', read_prop (heap s (manager_settings s)) k), (''newValue'', LJs v)]\<rparr>]
     @ (if too_long k v
        then [\<lparr>lvl = Warn, origin = SettingsManager,
                 msg = ''Setting value exceeds recommended length'',
                 payload = [(''key'', LJs (JStr k)), (''length'', LNat (value_length v)),
                            (''maxRecommended'', LNat 100)]\<rparr>]
        else [])
     @ [\<lparr>lvl = Debug, origin = SettingsManager,
          msg = ''Persisting updated settings to storage'', payload = []\<rparr>]
     @ (case host of
          None \<Rightarrow>
            [\<lparr>lvl = Debug, origin = SettingsManager,
               msg = ''Setting update completed successfully'', payload = []\<rparr>,
             \<lparr>lvl = Info, origin = SettingsManager, msg = ''Setting successfully updated'',
               payload = [(''key'', LJs (JStr k)), (''newValue'', LJs (shown_value v))]\<rparr>]
        | Some e \<Rightarrow>
            [\<lparr>lvl = Error, origin = SettingsManager, msg = ''Failed to update plugin setting'',
               payload = [(''key'', LJs (JStr k)), (''error'', LJs (JStr (thrown_text e))),
                          (''attemptedValue'', LJs v)]\<rparr>])"
  by (simp add: updateSetting_def saveData_def Let_def emit_simps refs_set_field heap_set_field
      split: option.splits)

lemma updateSetting_field:
  "heap (snd (updateSetting host k v s)) (manager_settings s) k = Some v"
  "heap (snd (updateSetting host k v s)) (plugin_settings s) k = Some v"
  by (simp_all add: updateSetting_heap Let_def)

lemma Object_assign_defaults:
  "Object_assign Map.empty [Some DEFAULT_SETTINGS, None] = DEFAULT_SETTINGS"
  "Object_assign Map.empty [Some DEFAULT_SETTINGS, Some p] =
     (\<lambda>k. if k = ''__proto__'' then None else (DEFAULT_SETTINGS ++ p) k)"
proof -
  have d: "DEFAULT_SETTINGS ''__proto__'' = None"
    by (simp add: DEFAULT_SETTINGS_def)
  have one: "assign_source (True, Map.empty) DEFAULT_SETTINGS = (True, DEFAULT_SETTINGS)"
    by (simp add: assign_source_def d)
  show "Object_assign Map.empty [Some DEFAULT_SETTINGS, None] = DEFAULT_SETTINGS"
    by (simp add: Object_assign_def one)
  have two: "snd (assign_source (True, DEFAULT_SETTINGS) p) k =
      (if k = ''__proto__'' then None else (DEFAULT_SETTINGS ++ p) k)" for k
    by (simp add: assign_source_def d map_add_def split: option.splits)
  show "Object_assign Map.empty [Some DEFAULT_SETTINGS, Some p] =
     (\<lambda>k. if k = ''__proto__'' then None else (DEFAULT_SETTINGS ++ p) k)"
    by (rule ext) (simp add: Object_assign_def one two)
qed

lemma onload_result:
  "fst (onload version ld s0) = (case ld of Inl e \<Rightarrow> Inl e | Inr d \<Rightarrow> Inr ())"
  by (simp add: onload_def Let_def split: sum.splits)

lemma onload_refs:
  "plugin_settings (snd (onload version (Inr d) s0)) = next_addr s0"
  "manager_settings (snd (onload version (Inr d) s0)) = next_addr s0"
  by (simp_all add: onload_def Let_def emit_simps SettingsManager_initialize_def
      VaultEventHandler_initialize_def)

lemma onload_heap:
  "heap (snd (onload version (Inr d) s0)) =
     (heap s0)(next_addr s0 := Object_assign Map.empty [Some DEFAULT_SETTINGS, d])"
  by (simp add: onload_def Let_def emit_simps SettingsManager_initialize_def
      VaultEventHandler_initialize_def)

lemma onload_records:
  "settings_record (snd (onload version (Inr d) s0)) = Object_assign Map.empty [Some DEFAULT_SETTINGS, d]"
  "manager_record (snd (onload version (Inr d) s0)) = Object_assign Map.empty [Some DEFAULT_SETTINGS, d]"
  by (simp_all add: settings_record_def manager_record_def onload_refs onload_heap)

section \<open>Properties of the vault event handler\<close>

lemma onFileCreate_lines:
  "lines (emitted s (onFileCreate (AFile f) s)) =
     (Debug, ''Processing file creation event'')
     # (if truthy (settings_record s ''enableFeature'')
        then (Debug, ''Feature enabled - applying creation logic to new file'')
          # (if extension f = ''md'' then [(Info, ''New markdown file created'')] else [])
          @ (if includes_str (name f) '' ''
             then [(Warn, ''File created with spaces in name - may cause linking issues'')] else [])
          @ (if includes_str (path f) ''/.temp/'' \<or> startsWith (name f) ''temp_''
             then [(Error, ''File created in restricted location or with temp naming pattern'')]
             else [])
        else [(Debug, ''Feature disabled - skipping creation logic'')])"
  by (simp add: lines_def Let_def emit_simps emitted_def settings_record_def)

lemma onFileDelete_lines:
  "lines (emitted s (onFileDelete (AFile f) s)) =
     (Debug, ''Processing file deletion event'')
     # (if extension f = ''md'' \<and> stat_size f > 10000
        then [(Info, ''Large markdown file deleted'')] else [])
     @ (if startsWith (path f) ''Important/'' \<or> includes_str (toLowerCase (name f)) ''backup''
        then [(Warn, ''File deleted from important location or appears to be backup'')] else [])"
  by (simp add: lines_def Let_def emit_simps emitted_def)

lemma onFileRename_lines:
  "lines (emitted s (onFileRename (AFile f) oldPath s)) =
     (Debug, ''Processing file rename event'')
     # (if pop_or_empty (split_str oldPath (CHR ''/'')) \<noteq> name f
        then (Info, ''File renamed with name change'')
          # (if includes_str (pop_or_empty (split_str oldPath (CHR ''/''))) '' ''
                \<and> \<not> includes_str (name f) '' ''
             then [(Warn, ''File renamed from spaced to non-spaced name - check for broken links'')]
             else [])
        else [])"
  by (simp add: lines_def Let_def emit_simps emitted_def)

lemma emitted_append: "logged s' = logged s @ es \<Longrightarrow> emitted s s' = es"
  by (simp add: emitted_def)

text \<open>What each handler logs for a file, as a function of the file and the flag.\<close>

lemma onFileCreate_frame: "onFileCreate af s = s\<lparr>logged := logged (onFileCreate af s)\<rparr>"
  by (cases af) (simp_all add: Let_def emit_def)

lemma onFileDelete_frame: "onFileDelete af s = s\<lparr>logged := logged (onFileDelete af s)\<rparr>"
  by (cases af) (simp_all add: Let_def emit_def)

lemma onFileRename_frame:
  "onFileRename af oldPath s = s\<lparr>logged := logged (onFileRename af oldPath s)\<rparr>"
  by (cases af) (simp_all add: Let_def emit_def)

lemma onFileCreate_emitted:
  "settings_record s = settings_record t \<Longrightarrow>
     logged (onFileCreate af s) = logged s @ emitted t (onFileCreate af t)"
  by (cases af) (simp_all add: Let_def emit_simps emitted_def settings_record_def)

lemma onFileDelete_emitted:
  "logged (onFileDelete af s) = logged s @ emitted t (onFileDelete af t)"
  by (cases af) (simp_all add: Let_def emit_simps emitted_def)

lemma onFileRename_emitted:
  "logged (onFileRename af oldPath s) = logged s @ emitted t (onFileRename af oldPath t)"
  by (cases af) (simp_all add: Let_def emit_simps emitted_def)

lemma handler_fields:
  "heap (onFileCreate af s) = heap s"
  "plugin_settings (onFileCreate af s) = plugin_settings s"
  "manager_settings (onFileCreate af s) = manager_settings s"
  "heap (onFileDelete af s) = heap s"
  "plugin_settings (onFileDelete af s) = plugin_settings s"
  "manager_settings (onFileDelete af s) = manager_settings s"
  "heap (onFileRename af oldPath s) = heap s"
  "plugin_settings (onFileRename af oldPath s) = plugin_settings s"
  "manager_settings (onFileRename af oldPath s) = manager_settings s"
  by (cases af; simp add: Let_def emit_simps)+

section \<open>Properties of runs\<close>

lemma updateSetting_keeps_fields:
  "heap s a j \<noteq> None \<Longrightarrow> heap (snd (updateSetting host k v s)) a j \<noteq> None"
  by (auto simp add: updateSetting_heap Let_def)

lemma step_keeps_fields: "heap s a j \<noteq> None \<Longrightarrow> heap (step act s) a j \<noteq> None"
  by (cases act) (simp_all add: updateSetting_keeps_fields handler_fields getSettings_def emit_simps)

lemma step_refs:
  "plugin_settings (step act s) = plugin_settings s"
  "manager_settings (step act s) = manager_settings s"
  by (cases act; simp add: updateSetting_refs handler_fields getSettings_def emit_simps)+

lemma run_refs:
  "plugin_settings (run acts s) = plugin_settings s \<and> manager_settings (run acts s) = manager_settings s"
  by (induction acts arbitrary: s) (simp_all add: step_refs)

lemma run_keeps_fields: "heap s a j \<noteq> None \<Longrightarrow> heap (run acts s) a j \<noteq> None"
proof (induction acts arbitrary: s)
  case Nil
  then show ?case by simp
next
  case (Cons act acts)
  have "heap (step act s) a j \<noteq> None"
    using Cons.prems by (rule step_keeps_fields)
  then have "heap (run acts (step act s)) a j \<noteq> None"
    by (rule Cons.IH)
  then show ?case by simp
qed

lemma onload_success_cases:
  assumes "onload version ld s0 = (Inr (), s1)"
  obtains d where "ld = Inr d" "s1 = snd (onload version (Inr d) s0)"
proof (cases ld)
  case (Inl e)
  have "fst (onload version ld s0) = Inl e"
    by (simp add: onload_result Inl)
  with assms show ?thesis by simp
next
  case (Inr d)
  with assms that show ?thesis by simp
qed

lemma onload_has_both: "has_both_fields (settings_record (snd (onload version (Inr d) s0)))"
proof (cases d)
  case None
  show ?thesis
    unfolding None onload_records Object_assign_defaults
    by (simp add: has_both_fields_def DEFAULT_SETTINGS_def)
next
  case (Some p)
  show ?thesis
    unfolding Some onload_records Object_assign_defaults
    by (simp add: has_both_fields_def DEFAULT_SETTINGS_def map_add_def split: option.splits)
qed

lemma getSettings_after_update_any_state:
  assumes "updateSetting host k v s = (r, s')" and "getSettings s' = (a, s'')"
  shows "heap s'' a k = Some v \<and> settings_record s'' k = Some v"
proof -
  have s': "s' = snd (updateSetting host k v s)"
    using assms(1) by simp
  have a: "a = manager_settings s'" and s'': "heap s'' = heap s'" "plugin_settings s'' = plugin_settings s'"
    using assms(2) by (auto simp add: getSettings_def emit_simps)
  show ?thesis
    unfolding a settings_record_def s'' s'
    by (simp add: updateSetting_refs updateSetting_field)
qed


section \<open>Claims about loading\<close>

text \<open>
  C2. Loading overlays the persisted data on the defaults. When the host returns no
  persisted data the settings record is \<open>{enableFeature: true, exampleSetting: "default
  value"}\<close>; when it returns a record, each of the two fields has its persisted value
  when the record has it and its default otherwise, and so has every other name but
  \<open>__proto__\<close>, which never becomes a property of the settings record.
\<close>

theorem onload_overlays_persisted_on_defaults:
  assumes "onload version (Inr data) s0 = (r, s1)"
  shows "r = Inr ()
    \<and> (data = None \<longrightarrow>
         settings_record s1
           = [''enableFeature'' \<mapsto> JBool True, ''exampleSetting'' \<mapsto> JStr ''default value''])
    \<and> (\<forall>p. data = Some p \<longrightarrow>
         settings_record s1 ''enableFeature''
           = (case p ''enableFeature'' of Some v \<Rightarrow> Some v | None \<Rightarrow> Some (JBool True))
         \<and> settings_record s1 ''exampleSetting''
           = (case p ''exampleSetting'' of Some v \<Rightarrow> Some v
              | None \<Rightarrow> Some (JStr ''default value'')))
    \<and> (\<forall>p k. data = Some p \<and> k \<noteq> ''__proto__'' \<longrightarrow>
         settings_record s1 k = (case p k of Some v \<Rightarrow> Some v | None \<Rightarrow> DEFAULT_SETTINGS k))
    \<and> settings_record s1 ''__proto__'' = None
    \<and> DEFAULT_SETTINGS
         = [''enableFeature'' \<mapsto> JBool True, ''exampleSetting'' \<mapsto> JStr ''default value'']"
proof -
  have r: "r = fst (onload version (Inr data) s0)" and s1: "s1 = snd (onload version (Inr data) s0)"
    using assms by simp_all
  have res: "r = Inr ()"
    by (simp add: r onload_result)
  have none: "data = None \<longrightarrow> settings_record s1 = DEFAULT_SETTINGS"
    by (simp add: s1 onload_records Object_assign_defaults)
  have some: "\<forall>p k. data = Some p \<and> k \<noteq> ''__proto__'' \<longrightarrow>
         settings_record s1 k = (case p k of Some v \<Rightarrow> Some v | None \<Rightarrow> DEFAULT_SETTINGS k)"
    by (simp add: s1 onload_records Object_assign_defaults map_add_def)
  have dv: "DEFAULT_SETTINGS ''enableFeature'' = Some (JBool True)"
    "DEFAULT_SETTINGS ''exampleSetting'' = Some (JStr ''default value'')"
    "DEFAULT_SETTINGS ''__proto__'' = None"
    by (simp_all add: DEFAULT_SETTINGS_def)
  have fields: "\<forall>p. data = Some p \<longrightarrow>
         settings_record s1 ''enableFeature''
           = (case p ''enableFeature'' of Some v \<Rightarrow> Some v | None \<Rightarrow> Some (JBool True))
         \<and> settings_record s1 ''exampleSetting''
           = (case p ''exampleSetting'' of Some v \<Rightarrow> Some v
              | None \<Rightarrow> Some (JStr ''default value''))"
    by (simp add: s1 onload_records Object_assign_defaults map_add_def dv split: option.splits)
  have proto: "settings_record s1 ''__proto__'' = None"
    by (cases data) (simp_all add: s1 onload_records Object_assign_defaults dv)
  have dflt: "DEFAULT_SETTINGS
         = [''enableFeature'' \<mapsto> JBool True, ''exampleSetting'' \<mapsto> JStr ''default value'']"
    by (simp add: DEFAULT_SETTINGS_def)
  show ?thesis
    using res none [unfolded dflt] fields some proto dflt by blast
qed

theorem onload_overlays_persisted_on_defaults_witness:
  "settings_record (snd (onload ''1.0.0'' (Inr (Some [''enableFeature'' \<mapsto> JBool False])) fresh_state))
      ''enableFeature'' = Some (JBool False)
   \<and> settings_record (snd (onload ''1.0.0'' (Inr (Some [''enableFeature'' \<mapsto> JBool False])) fresh_state))
      ''exampleSetting'' = Some (JStr ''default value'')
   \<and> settings_record (snd (onload ''1.0.0'' (Inr None) fresh_state))
      = [''enableFeature'' \<mapsto> JBool True, ''exampleSetting'' \<mapsto> JStr ''default value'']
   \<and> settings_record (snd (onload ''1.0.0''
        (Inr (Some [''__proto__'' \<mapsto> JBool False, ''theme'' \<mapsto> JStr ''dark''])) fresh_state))
      ''theme'' = Some (JStr ''dark'')
   \<and> settings_record (snd (onload ''1.0.0''
        (Inr (Some [''__proto__'' \<mapsto> JBool False, ''theme'' \<mapsto> JStr ''dark''])) fresh_state))
      ''__proto__'' = None"
proof -
  have h1: "onload ''1.0.0'' (Inr (Some [''enableFeature'' \<mapsto> JBool False])) fresh_state
      = (fst (onload ''1.0.0'' (Inr (Some [''enableFeature'' \<mapsto> JBool False])) fresh_state),
         snd (onload ''1.0.0'' (Inr (Some [''enableFeature'' \<mapsto> JBool False])) fresh_state))"
    by simp
  have h2: "onload ''1.0.0'' (Inr None) fresh_state
      = (fst (onload ''1.0.0'' (Inr None) fresh_state), snd (onload ''1.0.0'' (Inr None) fresh_state))"
    by simp
  have h3: "onload ''1.0.0''
        (Inr (Some [''__proto__'' \<mapsto> JBool False, ''theme'' \<mapsto> JStr ''dark''])) fresh_state
      = (fst (onload ''1.0.0''
           (Inr (Some [''__proto__'' \<mapsto> JBool False, ''theme'' \<mapsto> JStr ''dark''])) fresh_state),
         snd (onload ''1.0.0''
           (Inr (Some [''__proto__'' \<mapsto> JBool False, ''theme'' \<mapsto> JStr ''dark''])) fresh_state))"
    by simp
  note a = onload_overlays_persisted_on_defaults [OF h1]
  note b = onload_overlays_persisted_on_defaults [OF h2]
  note c = onload_overlays_persisted_on_defaults [OF h3]
  have a1: "settings_record (snd (onload ''1.0.0'' (Inr (Some [''enableFeature'' \<mapsto> JBool False])) fresh_state))
      ''enableFeature'' = Some (JBool False)"
    using a by simp
  have a2: "settings_record (snd (onload ''1.0.0'' (Inr (Some [''enableFeature'' \<mapsto> JBool False])) fresh_state))
      ''exampleSetting'' = Some (JStr ''default value'')"
    using a by simp
  have k: "''theme'' \<noteq> ''__proto__''"
    by simp
  have c1: "settings_record (snd (onload ''1.0.0''
        (Inr (Some [''__proto__'' \<mapsto> JBool False, ''theme'' \<mapsto> JStr ''dark''])) fresh_state))
      ''theme'' = Some (JStr ''dark'')"
    using c k by simp
  have c2: "settings_record (snd (onload ''1.0.0''
        (Inr (Some [''__proto__'' \<mapsto> JBool False, ''theme'' \<mapsto> JStr ''dark''])) fresh_state))
      ''__proto__'' = None"
    using c by blast
  show ?thesis
    using a1 a2 b c1 c2 by simp
qed

section \<open>Claims about the settings manager\<close>

text \<open>
  C1. When the host's save call raises inside \<open>updateSetting\<close>, the same error reaches
  the caller and nothing is rolled back: for every key and value, the record the manager
  holds and the plugin's record both have the new value at that key, and the failure is
  logged at error severity.
\<close>

theorem updateSetting_failure_keeps_mutation:
  "fst (updateSetting (Some e) k v s) = Inl e
   \<and> manager_record (snd (updateSetting (Some e) k v s)) k = Some v
   \<and> settings_record (snd (updateSetting (Some e) k v s)) k = Some v
   \<and> (\<exists>x \<in> set (emitted s (snd (updateSetting (Some e) k v s))). lvl x = Error)"
  by (simp add: updateSetting_result updateSetting_field updateSetting_refs updateSetting_logged
      manager_record_def settings_record_def emitted_def)

theorem updateSetting_failure_keeps_mutation_witness:
  "settings_record fresh_state ''enableFeature'' = None
   \<and> fst (updateSetting (Some (ErrorObj ''disk full'' None)) ''enableFeature'' (JBool False)
        fresh_state) = Inl (ErrorObj ''disk full'' None)
   \<and> settings_record (snd (updateSetting (Some (ErrorObj ''disk full'' None)) ''enableFeature''
        (JBool False) fresh_state)) ''enableFeature'' = Some (JBool False)"
proof -
  have before: "settings_record fresh_state ''enableFeature'' = None"
    by (simp add: settings_record_def fresh_state_def)
  show ?thesis
    using before
      updateSetting_failure_keeps_mutation
        [of "ErrorObj ''disk full'' None" "''enableFeature''" "JBool False" fresh_state]
    by blast
qed

text \<open>
  C3. For every string longer than 100 characters, \<open>updateSetting('exampleSetting', value)\<close>
  logs the length warning and still applies the update, whatever the host answers: both
  records hold the value and the record is handed to the host's save call.
\<close>

theorem updateSetting_long_value_warns_and_applies:
  assumes "length t > 100"
  shows "\<lparr>lvl = Warn, origin = SettingsManager, msg = ''Setting value exceeds recommended length'',
            payload = [(''key'', LJs (JStr ''exampleSetting'')), (''length'', LNat (length t)),
                       (''maxRecommended'', LNat 100)]\<rparr>
           \<in> set (emitted s (snd (updateSetting host ''exampleSetting'' (JStr t) s)))
         \<and> manager_record (snd (updateSetting host ''exampleSetting'' (JStr t) s)) ''exampleSetting''
             = Some (JStr t)
         \<and> settings_record (snd (updateSetting host ''exampleSetting'' (JStr t) s)) ''exampleSetting''
             = Some (JStr t)
         \<and> saved (snd (updateSetting host ''exampleSetting'' (JStr t) s))
             = saved s @ [settings_record (snd (updateSetting host ''exampleSetting'' (JStr t) s))]"
  using assms
  by (simp add: updateSetting_field updateSetting_refs updateSetting_logged updateSetting_saved
      manager_record_def settings_record_def emitted_def)

theorem updateSetting_long_value_warns_and_applies_witness:
  "length (replicate 101 (CHR ''x'')) > 100
   \<and> settings_record (snd (updateSetting None ''exampleSetting'' (JStr (replicate 101 (CHR ''x'')))
        fresh_state)) ''exampleSetting'' = Some (JStr (replicate 101 (CHR ''x'')))
   \<and> saved (snd (updateSetting None ''exampleSetting'' (JStr (replicate 101 (CHR ''x'')))
        fresh_state))
       = saved fresh_state @ [settings_record (snd (updateSetting None ''exampleSetting''
           (JStr (replicate 101 (CHR ''x''))) fresh_state))]"
proof -
  have long: "length (replicate 101 (CHR ''x'')) > 100"
    by simp
  show ?thesis
    using long updateSetting_long_value_warns_and_applies [OF long, of fresh_state None]
    by blast
qed

text \<open>
  C4. A successful \<open>updateSetting(k, v)\<close> changes the one field \<open>k\<close> of the settings
  record and nothing else (every other field, every other object and both references
  stay as they were), and hands the whole record, as it is after the change, to the
  host's save call.
\<close>

theorem updateSetting_success_frame:
  assumes "updateSetting None k v s = (r, s')"
  shows "r = Inr ()
    \<and> settings_record s' = (settings_record s)(k \<mapsto> v)
    \<and> manager_record s' = (manager_record s)(k \<mapsto> v)
    \<and> (\<forall>j. j \<noteq> k \<longrightarrow> settings_record s' j = settings_record s j
                    \<and> manager_record s' j = manager_record s j)
    \<and> (\<forall>a. a \<noteq> plugin_settings s \<and> a \<noteq> manager_settings s \<longrightarrow> heap s' a = heap s a)
    \<and> plugin_settings s' = plugin_settings s
    \<and> manager_settings s' = manager_settings s
    \<and> saved s' = saved s @ [settings_record s']"
proof -
  have r: "r = fst (updateSetting None k v s)" and s': "s' = snd (updateSetting None k v s)"
    using assms by simp_all
  show ?thesis
    unfolding r s'
    by (simp add: updateSetting_result updateSetting_refs updateSetting_heap updateSetting_saved
        manager_record_def settings_record_def Let_def)
qed

theorem updateSetting_success_frame_witness:
  "updateSetting None ''exampleSetting'' (JStr ''hello'') (snd (onload ''1.0.0'' (Inr None) fresh_state))
     = (Inr (), snd (updateSetting None ''exampleSetting'' (JStr ''hello'')
                      (snd (onload ''1.0.0'' (Inr None) fresh_state))))
   \<and> settings_record (snd (updateSetting None ''exampleSetting'' (JStr ''hello'')
                      (snd (onload ''1.0.0'' (Inr None) fresh_state))))
     = [''enableFeature'' \<mapsto> JBool True, ''exampleSetting'' \<mapsto> JStr ''hello'']
   \<and> saved (snd (updateSetting None ''exampleSetting'' (JStr ''hello'')
                      (snd (onload ''1.0.0'' (Inr None) fresh_state))))
     = [[''enableFeature'' \<mapsto> JBool True, ''exampleSetting'' \<mapsto> JStr ''hello'']]"
proof -
  let ?s = "snd (onload ''1.0.0'' (Inr None) fresh_state)"
  let ?u = "updateSetting None ''exampleSetting'' (JStr ''hello'') ?s"
  have h: "?u = (fst ?u, snd ?u)"
    by simp
  note f = updateSetting_success_frame [OF h]
  have before: "settings_record ?s = DEFAULT_SETTINGS"
    by (simp add: onload_records Object_assign_defaults)
  have sv: "saved ?s = []"
    by (simp add: onload_def Let_def emit_simps SettingsManager_initialize_def
      VaultEventHandler_initialize_def fresh_state_def)
  have r: "fst ?u = Inr ()"
    using f by simp
  have rec: "settings_record (snd ?u)
     = [''enableFeature'' \<mapsto> JBool True, ''exampleSetting'' \<mapsto> JStr ''hello'']"
    using f before by (simp add: DEFAULT_SETTINGS_def)
  have "saved (snd ?u) = [settings_record (snd ?u)]"
    using f sv by simp
  then show ?thesis
    using h r rec by simp
qed

section \<open>Claims about the vault event handler\<close>

text \<open>
  C9. Each handler first tests that the payload is a \<open>TFile\<close>; for anything else
  (a folder) \<open>onFileCreate\<close>, \<open>onFileDelete\<close> and \<open>onFileRename\<close> return the state
  they were given, so they log nothing and change nothing.
\<close>

theorem vault_handlers_ignore_non_files:
  "onFileCreate (AFolder p) s = s \<and> onFileDelete (AFolder p) s = s
   \<and> onFileRename (AFolder p) oldPath s = s
   \<and> emitted s (onFileCreate (AFolder p) s) = []
   \<and> emitted s (onFileDelete (AFolder p) s) = []
   \<and> emitted s (onFileRename (AFolder p) oldPath s) = []"
  by (simp add: emitted_def)

text \<open>
  C5. The handlers are stateless and deterministic per event: run on the same payload
  with the same settings record, a handler appends the same entries whatever else the
  state holds, and so a second invocation right after the first logs what the first
  logged.
\<close>

theorem vault_handlers_same_output_for_same_input:
  assumes "settings_record s = settings_record t"
  shows "emitted s (onFileCreate af s) = emitted t (onFileCreate af t)
    \<and> emitted s (onFileDelete af s) = emitted t (onFileDelete af t)
    \<and> emitted s (onFileRename af oldPath s) = emitted t (onFileRename af oldPath t)
    \<and> emitted (onFileCreate af s) (onFileCreate af (onFileCreate af s))
        = emitted s (onFileCreate af s)
    \<and> emitted (onFileDelete af s) (onFileDelete af (onFileDelete af s))
        = emitted s (onFileDelete af s)
    \<and> emitted (onFileRename af oldPath s) (onFileRename af oldPath (onFileRename af oldPath s))
        = emitted s (onFileRename af oldPath s)"
proof -
  have same: "settings_record (onFileCreate af s) = settings_record s"
    by (simp add: settings_record_def handler_fields)
  have c: "emitted s (onFileCreate af s) = emitted t (onFileCreate af t)"
    by (rule emitted_append) (rule onFileCreate_emitted [OF assms])
  have d: "emitted s (onFileDelete af s) = emitted t (onFileDelete af t)"
    by (rule emitted_append) (rule onFileDelete_emitted)
  have r: "emitted s (onFileRename af oldPath s) = emitted t (onFileRename af oldPath t)"
    by (rule emitted_append) (rule onFileRename_emitted)
  have c2: "emitted (onFileCreate af s) (onFileCreate af (onFileCreate af s))
        = emitted s (onFileCreate af s)"
    by (rule emitted_append) (rule onFileCreate_emitted [OF same])
  have d2: "emitted (onFileDelete af s) (onFileDelete af (onFileDelete af s))
        = emitted s (onFileDelete af s)"
    by (rule emitted_append) (rule onFileDelete_emitted)
  have r2: "emitted (onFileRename af oldPath s) (onFileRename af oldPath (onFileRename af oldPath s))
        = emitted s (onFileRename af oldPath s)"
    by (rule emitted_append) (rule onFileRename_emitted)
  show ?thesis
    using c d r c2 d2 r2 by blast
qed


theorem vault_handlers_same_output_for_same_input_witness:
  "settings_record fresh_state = settings_record (onFileDelete (AFile \<lparr>path = ''a.md'', name = ''a.md'',
       extension = ''md'', stat_size = 3, parent_path = None\<rparr>) fresh_state)
   \<and> emitted (onFileCreate (AFile \<lparr>path = ''a.md'', name = ''a.md'', extension = ''md'',
          stat_size = 3, parent_path = None\<rparr>) fresh_state)
        (onFileCreate (AFile \<lparr>path = ''a.md'', name = ''a.md'', extension = ''md'',
          stat_size = 3, parent_path = None\<rparr>)
          (onFileCreate (AFile \<lparr>path = ''a.md'', name = ''a.md'', extension = ''md'',
             stat_size = 3, parent_path = None\<rparr>) fresh_state))
      = emitted fresh_state (onFileCreate (AFile \<lparr>path = ''a.md'', name = ''a.md'',
          extension = ''md'', stat_size = 3, parent_path = None\<rparr>) fresh_state)
   \<and> lines (emitted fresh_state (onFileCreate (AFile \<lparr>path = ''a.md'', name = ''a.md'',
          extension = ''md'', stat_size = 3, parent_path = None\<rparr>) fresh_state))
      = [(Debug, ''Processing file creation event''),
         (Debug, ''Feature disabled - skipping creation logic'')]"
proof -
  let ?f = "AFile \<lparr>path = ''a.md'', name = ''a.md'', extension = ''md'', stat_size = 3,
    parent_path = None\<rparr>"
  have h: "settings_record fresh_state = settings_record (onFileDelete ?f fresh_state)"
    by (simp only: settings_record_def handler_fields)
  have l: "lines (emitted fresh_state (onFileCreate ?f fresh_state))
      = [(Debug, ''Processing file creation event''),
         (Debug, ''Feature disabled - skipping creation logic'')]"
    by (simp add: onFileCreate_lines settings_record_def fresh_state_def del: onFileCreate.simps)
  show ?thesis
    using h l vault_handlers_same_output_for_same_input [OF h, of ?f] by blast
qed

text \<open>
  C6. No handler changes plugin state: after \<open>onFileCreate\<close>, \<open>onFileDelete\<close> or
  \<open>onFileRename\<close> the state is the one before with entries appended to the log, so the
  settings record and every other field are as they were. The severity and message of
  the lines are the same for two files with the same path, name, extension and size.
\<close>

theorem vault_handlers_change_only_the_log:
  "onFileCreate af s = s\<lparr>logged := logged s @ emitted s (onFileCreate af s)\<rparr>
   \<and> onFileDelete af s = s\<lparr>logged := logged s @ emitted s (onFileDelete af s)\<rparr>
   \<and> onFileRename af oldPath s = s\<lparr>logged := logged s @ emitted s (onFileRename af oldPath s)\<rparr>
   \<and> settings_record (onFileCreate af s) = settings_record s
   \<and> settings_record (onFileDelete af s) = settings_record s
   \<and> settings_record (onFileRename af oldPath s) = settings_record s
   \<and> (path f = path g \<and> name f = name g \<and> extension f = extension g \<and> stat_size f = stat_size g
        \<longrightarrow> lines (emitted s (onFileCreate (AFile f) s)) = lines (emitted s (onFileCreate (AFile g) s))
          \<and> lines (emitted s (onFileDelete (AFile f) s)) = lines (emitted s (onFileDelete (AFile g) s))
          \<and> lines (emitted s (onFileRename (AFile f) oldPath s))
              = lines (emitted s (onFileRename (AFile g) oldPath s)))"
proof (intro conjI impI)
  show "onFileCreate af s = s\<lparr>logged := logged s @ emitted s (onFileCreate af s)\<rparr>"
    using onFileCreate_frame [of af s] onFileCreate_emitted [OF refl, of af s] by simp
  show "onFileDelete af s = s\<lparr>logged := logged s @ emitted s (onFileDelete af s)\<rparr>"
    using onFileDelete_frame [of af s] onFileDelete_emitted [of af s s] by simp
  show "onFileRename af oldPath s = s\<lparr>logged := logged s @ emitted s (onFileRename af oldPath s)\<rparr>"
    using onFileRename_frame [of af oldPath s] onFileRename_emitted [of af oldPath s s] by simp
  show "settings_record (onFileCreate af s) = settings_record s"
    "settings_record (onFileDelete af s) = settings_record s"
    "settings_record (onFileRename af oldPath s) = settings_record s"
    by (simp_all only: settings_record_def handler_fields)
next
  assume eq: "path f = path g \<and> name f = name g \<and> extension f = extension g
    \<and> stat_size f = stat_size g"
  show "lines (emitted s (onFileCreate (AFile f) s)) = lines (emitted s (onFileCreate (AFile g) s))"
    by (simp only: onFileCreate_lines eq)
  show "lines (emitted s (onFileDelete (AFile f) s)) = lines (emitted s (onFileDelete (AFile g) s))"
    by (simp only: onFileDelete_lines eq)
  show "lines (emitted s (onFileRename (AFile f) oldPath s))
              = lines (emitted s (onFileRename (AFile g) oldPath s))"
    by (simp only: onFileRename_lines eq)
qed

theorem vault_handlers_change_only_the_log_witness:
  "path sample_note = path (sample_note\<lparr>parent_path := None\<rparr>)
   \<and> name sample_note = name (sample_note\<lparr>parent_path := None\<rparr>)
   \<and> extension sample_note = extension (sample_note\<lparr>parent_path := None\<rparr>)
   \<and> stat_size sample_note = stat_size (sample_note\<lparr>parent_path := None\<rparr>)
   \<and> lines (emitted loaded_defaults (onFileCreate (AFile sample_note) loaded_defaults))
       = lines (emitted loaded_defaults
           (onFileCreate (AFile (sample_note\<lparr>parent_path := None\<rparr>)) loaded_defaults))
   \<and> settings_record (onFileCreate (AFile sample_note) loaded_defaults)
       = settings_record loaded_defaults
   \<and> lines (emitted loaded_defaults (onFileCreate (AFile sample_note) loaded_defaults))
       = [(Debug, ''Processing file creation event''),
          (Debug, ''Feature enabled - applying creation logic to new file''),
          (Info, ''New markdown file created''),
          (Warn, ''File created with spaces in name - may cause linking issues'')]"
proof -
  have h: "path sample_note = path (sample_note\<lparr>parent_path := None\<rparr>)
   \<and> name sample_note = name (sample_note\<lparr>parent_path := None\<rparr>)
   \<and> extension sample_note = extension (sample_note\<lparr>parent_path := None\<rparr>)
   \<and> stat_size sample_note = stat_size (sample_note\<lparr>parent_path := None\<rparr>)"
    by simp
  note t = vault_handlers_change_only_the_log
    [where af = "AFile sample_note" and s = loaded_defaults and f = sample_note
       and g = "sample_note\<lparr>parent_path := None\<rparr>"]
  have on: "settings_record loaded_defaults ''enableFeature'' = Some (JBool True)"
    unfolding loaded_defaults_def onload_records Object_assign_defaults
    by (simp add: DEFAULT_SETTINGS_def)
  have l: "lines (emitted loaded_defaults (onFileCreate (AFile sample_note) loaded_defaults))
       = [(Debug, ''Processing file creation event''),
          (Debug, ''Feature enabled - applying creation logic to new file''),
          (Info, ''New markdown file created''),
          (Warn, ''File created with spaces in name - may cause linking issues'')]"
    unfolding onFileCreate_lines on by (simp add: sample_note_def)
  show ?thesis
    using h t l by blast
qed

text \<open>
  C10. The \<open>enableFeature\<close> flag gates the create handler only. With the flag not set
  \<open>onFileCreate\<close> logs debug lines only, for every payload; with it set a markdown file
  gets its info line. \<open>onFileDelete\<close> and \<open>onFileRename\<close> log the same entries in
  any two states, and their large-markdown, important-location and name-change lines
  depend on the file alone.
\<close>

theorem enableFeature_gates_only_the_create_handler:
  "(\<not> truthy (settings_record s ''enableFeature'')
      \<longrightarrow> (\<forall>e \<in> set (emitted s (onFileCreate af s)). lvl e = Debug))
   \<and> (truthy (settings_record s ''enableFeature'') \<and> extension f = ''md''
      \<longrightarrow> (Info, ''New markdown file created'') \<in> set (lines (emitted s (onFileCreate (AFile f) s))))
   \<and> emitted s (onFileDelete af s) = emitted t (onFileDelete af t)
   \<and> emitted s (onFileRename af oldPath s) = emitted t (onFileRename af oldPath t)
   \<and> (extension f = ''md'' \<and> stat_size f > 10000
      \<longrightarrow> (Info, ''Large markdown file deleted'') \<in> set (lines (emitted s (onFileDelete (AFile f) s))))
   \<and> (startsWith (path f) ''Important/'' \<or> includes_str (toLowerCase (name f)) ''backup''
      \<longrightarrow> (Warn, ''File deleted from important location or appears to be backup'')
            \<in> set (lines (emitted s (onFileDelete (AFile f) s))))
   \<and> (pop_or_empty (split_str oldPath (CHR ''/'')) \<noteq> name f
      \<longrightarrow> (Info, ''File renamed with name change'')
            \<in> set (lines (emitted s (onFileRename (AFile f) oldPath s))))"
proof (intro conjI impI)
  assume off: "\<not> truthy (settings_record s ''enableFeature'')"
  show "\<forall>e \<in> set (emitted s (onFileCreate af s)). lvl e = Debug"
  proof (cases af)
    case (AFile f')
    have "lines (emitted s (onFileCreate (AFile f') s))
        = [(Debug, ''Processing file creation event''),
           (Debug, ''Feature disabled - skipping creation logic'')]"
      using off by (simp add: onFileCreate_lines del: onFileCreate.simps)
    then have "\<forall>x \<in> set (lines (emitted s (onFileCreate (AFile f') s))). fst x = Debug"
      by (simp del: onFileCreate.simps)
    then show ?thesis
      unfolding AFile lines_def by (simp del: onFileCreate.simps)
  next
    case (AFolder p)
    then show ?thesis by (simp add: emitted_def)
  qed
next
  assume "truthy (settings_record s ''enableFeature'') \<and> extension f = ''md''"
  then show "(Info, ''New markdown file created'') \<in> set (lines (emitted s (onFileCreate (AFile f) s)))"
    by (simp add: onFileCreate_lines del: onFileCreate.simps)
next
  show "emitted s (onFileDelete af s) = emitted t (onFileDelete af t)"
    by (rule emitted_append) (rule onFileDelete_emitted)
  show "emitted s (onFileRename af oldPath s) = emitted t (onFileRename af oldPath t)"
    by (rule emitted_append) (rule onFileRename_emitted)
next
  assume "extension f = ''md'' \<and> stat_size f > 10000"
  then show "(Info, ''Large markdown file deleted'') \<in> set (lines (emitted s (onFileDelete (AFile f) s)))"
    by (simp add: onFileDelete_lines del: onFileDelete.simps)
next
  assume "startsWith (path f) ''Important/'' \<or> includes_str (toLowerCase (name f)) ''backup''"
  then show "(Warn, ''File deleted from important location or appears to be backup'')
            \<in> set (lines (emitted s (onFileDelete (AFile f) s)))"
    by (simp add: onFileDelete_lines del: onFileDelete.simps)
next
  assume "pop_or_empty (split_str oldPath (CHR ''/'')) \<noteq> name f"
  then show "(Info, ''File renamed with name change'')
            \<in> set (lines (emitted s (onFileRename (AFile f) oldPath s)))"
    by (simp add: onFileRename_lines del: onFileRename.simps)
qed



theorem enableFeature_gates_only_the_create_handler_witness:
  "\<not> truthy (settings_record loaded_disabled ''enableFeature'')
   \<and> Info \<notin> lvl ` set (emitted loaded_disabled (onFileCreate (AFile sample_note) loaded_disabled))
   \<and> Warn \<notin> lvl ` set (emitted loaded_disabled (onFileCreate (AFile sample_note) loaded_disabled))
   \<and> Error \<notin> lvl ` set (emitted loaded_disabled (onFileCreate (AFile sample_note) loaded_disabled))
   \<and> extension sample_note = ''md'' \<and> stat_size sample_note > 10000
   \<and> (Info, ''Large markdown file deleted'')
        \<in> set (lines (emitted loaded_disabled (onFileDelete (AFile sample_note) loaded_disabled)))
   \<and> startsWith (path sample_note) ''Important/''
   \<and> (Warn, ''File deleted from important location or appears to be backup'')
        \<in> set (lines (emitted loaded_disabled (onFileDelete (AFile sample_note) loaded_disabled)))"
proof -
  have off: "\<not> truthy (settings_record loaded_disabled ''enableFeature'')"
    unfolding loaded_disabled_def onload_records Object_assign_defaults
    by (simp add: map_add_def)
  have big: "extension sample_note = ''md'' \<and> stat_size sample_note > 10000"
    by (simp add: sample_note_def)
  have imp: "startsWith (path sample_note) ''Important/''"
    by (simp add: sample_note_def)
  note t = enableFeature_gates_only_the_create_handler
    [where s = loaded_disabled and af = "AFile sample_note" and f = sample_note]
  have dbg: "\<forall>e \<in> set (emitted loaded_disabled (onFileCreate (AFile sample_note) loaded_disabled)).
      lvl e = Debug"
    using t off by blast
  have none: "Info \<notin> lvl ` set (emitted loaded_disabled (onFileCreate (AFile sample_note) loaded_disabled))"
    "Warn \<notin> lvl ` set (emitted loaded_disabled (onFileCreate (AFile sample_note) loaded_disabled))"
    "Error \<notin> lvl ` set (emitted loaded_disabled (onFileCreate (AFile sample_note) loaded_disabled))"
    using dbg by auto
  show ?thesis
    using off big imp t none by blast
qed

section \<open>Claims about the loaded plugin\<close>

text \<open>
  C7. Invariant: once \<open>onload\<close> has completed the settings record has both fields,
  \<open>enableFeature\<close> and \<open>exampleSetting\<close>, and it still has them after any run of
  updates and file events and after one more \<open>updateSetting\<close>, whatever the host
  answers: no field present after load is ever removed.
\<close>

theorem both_fields_after_load_and_updates:
  assumes "onload version ld s0 = (Inr (), s1)"
  shows "has_both_fields (settings_record s1)
    \<and> has_both_fields (settings_record (run acts s1))
    \<and> has_both_fields (manager_record (run acts s1))
    \<and> has_both_fields (settings_record (snd (updateSetting host k v (run acts s1))))
    \<and> (\<forall>j. settings_record s1 j \<noteq> None \<longrightarrow> settings_record (run acts s1) j \<noteq> None)"
proof -
  from assms obtain d where s1: "s1 = snd (onload version (Inr d) s0)"
    by (rule onload_success_cases)
  have refs: "manager_settings s1 = plugin_settings s1"
    by (simp add: s1 onload_refs)
  have keep: "settings_record (run as s1) j \<noteq> None" if "settings_record s1 j \<noteq> None" for as j
    using that run_keeps_fields [of s1 "plugin_settings s1" j as]
    by (simp add: settings_record_def run_refs)
  have both0: "has_both_fields (settings_record s1)"
    unfolding s1 by (rule onload_has_both)
  have both: "has_both_fields (settings_record (run as s1))" for as
    using both0 keep [of _ as] by (simp add: has_both_fields_def)
  have mgr: "manager_record (run acts s1) = settings_record (run acts s1)"
    by (simp add: manager_record_def settings_record_def run_refs refs)
  have upd: "snd (updateSetting host k v (run acts s1)) = run (acts @ [Update host k v]) s1"
    by (induction acts arbitrary: s1) simp_all
  show ?thesis
    using both0 both [of acts] both [of "acts @ [Update host k v]"] mgr upd keep [of _ acts]
    by simp
qed

theorem both_fields_after_load_and_updates_witness:
  "onload ''1.0.0'' (Inr (Some [''enableFeature'' \<mapsto> JBool False])) fresh_state
     = (Inr (), loaded_disabled)
   \<and> has_both_fields (settings_record (run
        [Update None ''exampleSetting'' (JStr ''''), Delete (AFile sample_note),
         Update (Some (NonError ''no space'')) ''enableFeature'' (JBool True)] loaded_disabled))"
proof -
  have h: "onload ''1.0.0'' (Inr (Some [''enableFeature'' \<mapsto> JBool False])) fresh_state
     = (Inr (), loaded_disabled)"
    by (simp add: loaded_disabled_def prod_eq_iff onload_result)
  show ?thesis
    using h both_fields_after_load_and_updates [OF h] by blast
qed

text \<open>
  C8. \<open>getSettings\<close> returns the current record: in the loaded plugin, after any run,
  once \<open>updateSetting(k, v)\<close> has succeeded the record \<open>getSettings\<close> returns has
  \<open>v\<close> at \<open>k\<close> and is the plugin's own settings record.
\<close>

theorem getSettings_returns_current_record:
  assumes "onload version ld s0 = (Inr (), s1)"
    and "updateSetting None k v (run acts s1) = (r, s')"
    and "getSettings s' = (a, s'')"
  shows "r = Inr ()
    \<and> heap s'' a k = Some v
    \<and> heap s'' a = settings_record s''
    \<and> settings_record s'' = (settings_record (run acts s1))(k \<mapsto> v)"
proof -
  from assms(1) obtain d where s1: "s1 = snd (onload version (Inr d) s0)"
    by (rule onload_success_cases)
  have refs: "manager_settings (run acts s1) = plugin_settings (run acts s1)"
    by (simp add: s1 onload_refs run_refs)
  have r: "r = fst (updateSetting None k v (run acts s1))"
    and s': "s' = snd (updateSetting None k v (run acts s1))"
    using assms(2) by simp_all
  have a: "a = manager_settings s'" and s'': "heap s'' = heap s'" "plugin_settings s'' = plugin_settings s'"
    using assms(3) by (auto simp add: getSettings_def emit_simps)
  show ?thesis
    unfolding r a settings_record_def s'' s'
    by (simp add: updateSetting_result updateSetting_refs updateSetting_heap refs Let_def)
qed

theorem getSettings_returns_current_record_witness:
  "onload ''1.0.0'' (Inr None) fresh_state = (Inr (), loaded_defaults)
   \<and> fst (updateSetting None ''exampleSetting'' (JStr ''hi'')
          (run [Create (AFile sample_note),
                Update (Some (NonError ''no space'')) ''enableFeature'' (JBool False)]
             loaded_defaults)) = Inr ()
   \<and> heap (snd (getSettings (snd (updateSetting None ''exampleSetting'' (JStr ''hi'')
          (run [Create (AFile sample_note),
                Update (Some (NonError ''no space'')) ''enableFeature'' (JBool False)]
             loaded_defaults)))))
        (fst (getSettings (snd (updateSetting None ''exampleSetting'' (JStr ''hi'')
          (run [Create (AFile sample_note),
                Update (Some (NonError ''no space'')) ''enableFeature'' (JBool False)]
             loaded_defaults)))))
      = settings_record (snd (getSettings (snd (updateSetting None ''exampleSetting'' (JStr ''hi'')
          (run [Create (AFile sample_note),
                Update (Some (NonError ''no space'')) ''enableFeature'' (JBool False)]
             loaded_defaults)))))
   \<and> settings_record (snd (getSettings (snd (updateSetting None ''exampleSetting'' (JStr ''hi'')
          (run [Create (AFile sample_note),
                Update (Some (NonError ''no space'')) ''enableFeature'' (JBool False)]
             loaded_defaults))))) ''exampleSetting'' = Some (JStr ''hi'')"
proof -
  let ?acts = "[Create (AFile sample_note),
                Update (Some (NonError ''no space'')) ''enableFeature'' (JBool False)]"
  let ?u = "updateSetting None ''exampleSetting'' (JStr ''hi'') (run ?acts loaded_defaults)"
  let ?g = "getSettings (snd ?u)"
  have h1: "onload ''1.0.0'' (Inr None) fresh_state = (Inr (), loaded_defaults)"
    by (simp add: loaded_defaults_def prod_eq_iff onload_result)
  have h2: "?u = (fst ?u, snd ?u)"
    by simp
  have h3: "?g = (fst ?g, snd ?g)"
    by simp
  note t = getSettings_returns_current_record [OF h1 h2 h3]
  have "settings_record (snd ?g) ''exampleSetting'' = Some (JStr ''hi'')"
    using t by simp
  then show ?thesis
    using h1 t by simp
qed


end
